theory Spec2Isabelle
  imports Complex_Main "HOL-Library.Char_ord" "HOL-Library.List_Lexorder"
begin

section \<open>Family chores tracker: data model\<close>

text \<open>
  The application (\<^verbatim>\<open>phase2_chores_app.py\<close>) keeps five tables in a MySQL database and
  reads and writes them with SQL statements. The model keeps each table as the list of its
  rows, in insertion order, and threads the whole database through every operation.

  A calendar date is Python's \<^verbatim>\<open>datetime.date\<close>, represented by its proleptic Gregorian
  ordinal (\<^verbatim>\<open>date.toordinal()\<close>): day 1 is 0001-01-01 (\<^verbatim>\<open>date.min\<close>) and day 3652059 is
  9999-12-31 (\<^verbatim>\<open>date.max\<close>). Comparison of dates is comparison of ordinals and
  \<^verbatim>\<open>d - timedelta(days=1)\<close> is \<open>d - 1\<close>, which raises OverflowError below \<^verbatim>\<open>date.min\<close>.
\<close>

type_synonym date = int

definition date_min :: date where
  "date_min = 1"

datatype role = Parent | Child

text \<open>
  Table \<^verbatim>\<open>people\<close>: the source reads the columns \<^verbatim>\<open>id\<close> and \<^verbatim>\<open>name\<close>.
\<close>

text \<open>
  Modelled from the spec: the column \<open>role\<close>. The declaration of the table is not part
  of the source file; the role (parent or child) is what the spec's data model gives a
  person. No function of the source reads it.
\<close>

record person =
  p_id :: nat
  name :: string
  role :: role

text \<open>
  Table \<^verbatim>\<open>chores\<close>, with the columns the source reads and writes.
\<close>

text \<open>
  Modelled from the spec: the column \<open>anchor\<close>, the stored anchor of a weekly rule (a
  weekday number, Monday = 0) or of a monthly rule (a day of the month), which the spec
  requires to be explicit and stored. The declaration of the table is not part of the
  source file, and no form of the source sets an anchor.
\<close>

record chore =
  c_id :: nat
  room :: string
  task :: string
  estimated_time :: int
  is_recurring :: bool
  recurrence_type :: "string option"
  recurrence_days :: "string option"
  anchor :: nat

text \<open>Table \<^verbatim>\<open>assignments\<close>; \<open>None\<close> is SQL's NULL.\<close>

record assignment =
  a_id :: nat
  chore_id :: nat
  person_id :: "nat option"
  assigned_date :: date
  due_date :: "date option"

text \<open>
  Table \<^verbatim>\<open>completions\<close>, without the column \<^verbatim>\<open>completed_datetime\<close>, which the
  database fills in and no claim reads.
\<close>

record completion =
  comp_id :: nat
  assignment_id :: nat
  actual_minutes :: int
  comp_notes :: "string option"
  photo_filename :: "string option"

text \<open>Table \<^verbatim>\<open>parental_reviews\<close>.\<close>

record review =
  pr_id :: nat
  completion_id :: nat
  reviewed_by_person_id :: nat
  approved :: bool
  review_notes :: "string option"

text \<open>
  What \<^verbatim>\<open>mysql.connector\<close> can raise in the model: a failed connection, and a statement
  that violates a uniqueness constraint.
\<close>

datatype db_error = InterfaceError | IntegrityError

text \<open>The messages the functions show through Streamlit, each with its text.\<close>

datatype st_msg = StError string "db_error" | StInfo string

text \<open>
  The state an operation runs in. \<open>reachable\<close> says whether
  \<^verbatim>\<open>mysql.connector.connect\<close> succeeds. The three counters are the AUTO_INCREMENT values
  of the tables the source inserts into. \<open>files\<close> is the content of the directory
  \<^verbatim>\<open>chore_photos\<close> and \<open>st_log\<close> the messages shown so far.

  The declarations of the tables are not part of the source file. The two constraints
  that decide how an unguarded \<^verbatim>\<open>INSERT\<close> of the source behaves are parameters of the
  state: \<open>uq_completion\<close> says that \<^verbatim>\<open>completions.assignment_id\<close> is declared unique,
  \<open>uq_review\<close> that \<^verbatim>\<open>parental_reviews.completion_id\<close> is. The table of assignments is
  modelled with no declared constraint: the source looks a row up before it inserts one.
  Foreign keys are not modelled: deleting an assignment leaves the completions alone.
\<close>

record world =
  reachable :: bool
  uq_completion :: bool
  uq_review :: bool
  people :: "person list"
  chores :: "chore list"
  assignments :: "assignment list"
  completions :: "completion list"
  parental_reviews :: "review list"
  next_assignment_id :: nat
  next_completion_id :: nat
  next_review_id :: nat
  files :: "(string \<times> string) list"
  st_log :: "st_msg list"

section \<open>The operations of the source\<close>

text \<open>
  \<^verbatim>\<open>get_db_connection\<close>: the connection, or \<^verbatim>\<open>None\<close> after showing the error and a
  hint. The model returns whether a connection was made.
\<close>

definition get_db_connection :: "world \<Rightarrow> bool \<times> world" where
  "get_db_connection w =
     (if reachable w then (True, w)
      else (False, w\<lparr>st_log := st_log w @
              [StError ''Error connecting to MySQL database: '' InterfaceError,
               StInfo ''Make sure you've created .streamlit/secrets.toml with your database credentials'']\<rparr>))"

text \<open>
  The row test of the statements
  \<^verbatim>\<open>... WHERE chore_id = %s AND assigned_date = %s\<close>.
\<close>

definition same_slot :: "nat \<Rightarrow> date \<Rightarrow> assignment \<Rightarrow> bool" where
  "same_slot c d a = (chore_id a = c \<and> assigned_date a = d)"




text \<open>
  \<^verbatim>\<open>add_parental_review(completion_id, reviewer_person_id, approved, review_notes)\<close>: one
  \<^verbatim>\<open>INSERT\<close>, with no look at the reviewer or at the completion.
\<close>

definition add_parental_review ::
  "world \<Rightarrow> nat \<Rightarrow> nat \<Rightarrow> bool \<Rightarrow> string option \<Rightarrow> bool \<times> world" where
  "add_parental_review w0 cid reviewer appr nts =
     (case get_db_connection w0 of
        (False, w) \<Rightarrow> (False, w)
      | (True, w) \<Rightarrow>
          (if uq_review w \<and> (\<exists>r \<in> set (parental_reviews w). completion_id r = cid)
           then (False, w\<lparr>st_log := st_log w @
                   [StError ''Error adding review: '' IntegrityError]\<rparr>)
           else (True, w\<lparr>parental_reviews := parental_reviews w @
                   [\<lparr>pr_id = next_review_id w, completion_id = cid,
                     reviewed_by_person_id = reviewer, approved = appr,
                     review_notes = nts\<rparr>],
                   next_review_id := Suc (next_review_id w)\<rparr>)))"

text \<open>
  \<^verbatim>\<open>update_chore_recurring(chore_id, is_recurring, recurrence_type, recurrence_days)\<close>:
  the \<^verbatim>\<open>UPDATE\<close> of the three columns of the rows with that id.
\<close>

definition update_chore_recurring ::
  "world \<Rightarrow> nat \<Rightarrow> bool \<Rightarrow> string option \<Rightarrow> string option \<Rightarrow> bool \<times> world" where
  "update_chore_recurring w0 cid rec rtype rdays =
     (case get_db_connection w0 of
        (False, w) \<Rightarrow> (False, w)
      | (True, w) \<Rightarrow>
          (True, w\<lparr>chores :=
             map (\<lambda>c. if c_id c = cid
                       then c\<lparr>is_recurring := rec, recurrence_type := rtype,
                              recurrence_days := rdays\<rparr>
                       else c)
                 (chores w)\<rparr>))"

text \<open>
  \<^verbatim>\<open>get_all_people\<close>: the rows of \<^verbatim>\<open>people\<close> ordered by name (here: byte-wise), or
  the empty list without a connection.
\<close>

definition get_all_people :: "world \<Rightarrow> person list \<times> world" where
  "get_all_people w0 =
     (case get_db_connection w0 of
        (False, w) \<Rightarrow> ([], w)
      | (True, w) \<Rightarrow> (sort_key name (people w), w))"

section \<open>Dates, weekdays and recurrence rules\<close>

text \<open>
  \<^verbatim>\<open>date.weekday()\<close> of Python's standard library: Monday is 0 and Sunday is 6,
  computed as \<^verbatim>\<open>(self.toordinal() + 6) % 7\<close>.
\<close>

definition weekday :: "date \<Rightarrow> nat" where
  "weekday d = nat ((d + 6) mod 7)"

text \<open>
  Year, month and day of an ordinal, as the standard library's \<^verbatim>\<open>_ord2ymd\<close> computes
  them, with its tables \<^verbatim>\<open>_DAYS_IN_MONTH\<close> and \<^verbatim>\<open>_DAYS_BEFORE_MONTH\<close> (index 0
  is a placeholder).
\<close>

definition DAYS_IN_MONTH :: "int list" where
  "DAYS_IN_MONTH = [-1, 31, 28, 31, 30, 31, 30, 31, 31, 30, 31, 30, 31]"

definition DAYS_BEFORE_MONTH :: "int list" where
  "DAYS_BEFORE_MONTH = [-1, 0, 31, 59, 90, 120, 151, 181, 212, 243, 273, 304, 334]"

definition is_leap :: "int \<Rightarrow> bool" where
  "is_leap y = (y mod 4 = 0 \<and> (y mod 100 \<noteq> 0 \<or> y mod 400 = 0))"

definition days_in_month :: "int \<Rightarrow> int \<Rightarrow> int" where
  "days_in_month y m =
     (if m = 2 \<and> is_leap y then 29 else DAYS_IN_MONTH ! nat m)"

definition ord2ymd :: "date \<Rightarrow> int \<times> int \<times> int" where
  "ord2ymd ordinal =
     (let r0 = ordinal - 1;
          n400 = r0 div 146097; r1 = r0 mod 146097;
          n100 = r1 div 36524; r2 = r1 mod 36524;
          n4 = r2 div 1461; r3 = r2 mod 1461;
          n1 = r3 div 365; n = r3 mod 365;
          year = n400 * 400 + 1 + n100 * 100 + n4 * 4 + n1
      in if n1 = 4 \<or> n100 = 4 then (year - 1, 12, 31)
         else
           (let leapyear = (n1 = 3 \<and> (n4 \<noteq> 24 \<or> n100 = 3));
                month = (n + 50) div 32;
                preceding = DAYS_BEFORE_MONTH ! nat month
                              + (if month > 2 \<and> leapyear then 1 else 0)
            in if preceding > n
               then (let month' = month - 1;
                         preceding' = preceding
                           - (DAYS_IN_MONTH ! nat month'
                               + (if month' = 2 \<and> leapyear then 1 else 0))
                     in (year, month', n - preceding' + 1))
               else (year, month, n - preceding + 1)))"

text \<open>
  The weekday codes of the recurring set-up form, in the order of the form's options:
  \<^verbatim>\<open>["M", "T", "W", "TH", "F", "SA", "SU"]\<close>.
\<close>

definition day_options :: "string list" where
  "day_options = [''M'', ''T'', ''W'', ''TH'', ''F'', ''SA'', ''SU'']"

text \<open>
  Modelled from the spec: the weekday code of a date. The stored procedure that
  evaluates the rules is not part of the source file; the code of a date is the form's
  option at the position of the date's weekday, Monday first.
\<close>

definition weekday_code :: "date \<Rightarrow> string" where
  "weekday_code d = day_options ! weekday d"

text \<open>
  Python's \<^verbatim>\<open>sep.join(xs)\<close> and \<^verbatim>\<open>s.split(sep)\<close> for a separator of one character:
  the form stores the chosen days as \<^verbatim>\<open>','.join(days)\<close> and reads them back with
  \<^verbatim>\<open>.split(',')\<close>.
\<close>

fun str_join :: "char \<Rightarrow> string list \<Rightarrow> string" where
  "str_join sep [] = []"
| "str_join sep [x] = x"
| "str_join sep (x # y # ys) = x @ sep # str_join sep (y # ys)"

fun str_split :: "char \<Rightarrow> string \<Rightarrow> string list" where
  "str_split sep [] = [[]]"
| "str_split sep (c # cs) =
     (if c = sep then [] # str_split sep cs
      else (case str_split sep cs of
              [] \<Rightarrow> [[c]]
            | p # ps \<Rightarrow> (c # p) # ps))"

text \<open>
  The days of a chore as the set-up form reads them (the default of its multiselect):
  \<^verbatim>\<open>chore['recurrence_days'].split(',') if chore['recurrence_days'] else []\<close>.
\<close>

definition days_of_chore :: "chore \<Rightarrow> string list" where
  "days_of_chore c =
     (case recurrence_days c of
        None \<Rightarrow> []
      | Some s \<Rightarrow> if s \<noteq> [] then str_split CHR '','' s else [])"

text \<open>
  Modelled from the spec: the recurrence rule, a tagged variant. A weekly rule carries
  its anchor weekday (Monday = 0), a monthly rule its anchor day of the month, a
  specific-days rule its set of weekday codes.
\<close>

datatype rule = No_rule | Daily | Weekly nat | Monthly int | Weekdays | Specific_days "string set"

text \<open>
  Modelled from the spec: the rule of a row of \<^verbatim>\<open>chores\<close>. A chore that is not
  recurring, or whose type is absent or not one of the five types of the form, has no
  rule.
\<close>

definition rule_of_chore :: "chore \<Rightarrow> rule" where
  "rule_of_chore c =
     (if \<not> is_recurring c then No_rule
      else case recurrence_type c of
             None \<Rightarrow> No_rule
           | Some t \<Rightarrow>
               if t = ''daily'' then Daily
               else if t = ''weekly'' then Weekly (anchor c)
               else if t = ''monthly'' then Monthly (int (anchor c))
               else if t = ''weekdays'' then Weekdays
               else if t = ''specific_days'' then Specific_days (set (days_of_chore c))
               else No_rule)"

text \<open>
  Modelled from the spec: \<open>is_due(rule, target_date)\<close>, the rule evaluator of the stored
  procedure, which is not part of the source file. No rule: never. Daily: always. Weekly:
  the anchor's weekday. Monthly: the anchor's day, or the last day of a month that is
  shorter than the anchor. Weekdays: Monday to Friday. Specific days: the date's weekday
  code is in the rule's set.
\<close>

fun is_due :: "rule \<Rightarrow> date \<Rightarrow> bool" where
  "is_due No_rule d = False"
| "is_due Daily d = True"
| "is_due (Weekly k) d = (weekday d = k)"
| "is_due (Monthly k) d =
     (case ord2ymd d of (y, m, dd) \<Rightarrow> dd = min k (days_in_month y m))"
| "is_due Weekdays d = (weekday d < 5)"
| "is_due (Specific_days S) d = (weekday_code d \<in> S)"

section \<open>Generation of recurring assignments\<close>

text \<open>
  Modelled from the spec: the default assignee of a new assignment, the person of the
  previous day's assignment of the chore if there is one, else nobody (NULL).
\<close>

definition default_assignee :: "assignment list \<Rightarrow> nat \<Rightarrow> date \<Rightarrow> nat option" where
  "default_assignee tbl c d =
     (case filter (same_slot c (d - 1)) tbl of
        [] \<Rightarrow> None
      | a # _ \<Rightarrow> person_id a)"

text \<open>
  Modelled from the spec: the stored procedure \<^verbatim>\<open>generate_recurring_assignments\<close>,
  which is not part of the source file. It goes through the catalog; for a chore whose rule
  is due on the target date it creates the assignment of the chore and the date when
  there is none (due on the target date, with the default assignee), and leaves an
  existing one untouched. The state is the table and its AUTO_INCREMENT counter. The
  count that the spec's contract returns is not modelled: the caller drops it.
\<close>

fun sp_generate ::
  "chore list \<Rightarrow> date \<Rightarrow> assignment list \<times> nat \<Rightarrow> assignment list \<times> nat" where
  "sp_generate [] d st = st"
| "sp_generate (c # cs) d (tbl, nxt) =
     (if is_due (rule_of_chore c) d \<and> filter (same_slot (c_id c) d) tbl = []
      then sp_generate cs d
             (tbl @ [\<lparr>a_id = nxt, chore_id = c_id c,
                      person_id = default_assignee tbl (c_id c) d,
                      assigned_date = d, due_date = Some d\<rparr>],
              Suc nxt)
      else sp_generate cs d (tbl, nxt))"

text \<open>
  \<^verbatim>\<open>generate_recurring_assignments(target_date)\<close>: calls the stored procedure and
  commits. The procedure of the model raises no error.
\<close>

definition generate_recurring_assignments :: "world \<Rightarrow> date \<Rightarrow> bool \<times> world" where
  "generate_recurring_assignments w0 d =
     (case get_db_connection w0 of
        (False, w) \<Rightarrow> (False, w)
      | (True, w) \<Rightarrow>
          (case sp_generate (chores w) d (assignments w, next_assignment_id w) of
             (tbl, nxt) \<Rightarrow> (True, w\<lparr>assignments := tbl, next_assignment_id := nxt\<rparr>)))"

text \<open>The state after \<open>n\<close> calls of \<^verbatim>\<open>generate_recurring_assignments\<close> for one date.\<close>

fun generate_times :: "nat \<Rightarrow> world \<Rightarrow> date \<Rightarrow> world" where
  "generate_times 0 w d = w"
| "generate_times (Suc n) w d = generate_times n (snd (generate_recurring_assignments w d)) d"




section \<open>Pages\<close>

datatype py_error = OverflowError

text \<open>
  The button "Copy from Yesterday" of \<^verbatim>\<open>assign_chores_page\<close>: the previous date
  (OverflowError when there is none), then with a connection the \<^verbatim>\<open>DELETE\<close> of the
  selected date's assignments and the \<^verbatim>\<open>INSERT ... SELECT\<close> of the previous date's
  rows, read after the deletion.
\<close>

definition copied_rows :: "assignment list \<Rightarrow> nat \<Rightarrow> date \<Rightarrow> assignment list" where
  "copied_rows src nxt d =
     map (\<lambda>(i, a). \<lparr>a_id = nxt + i, chore_id = chore_id a, person_id = person_id a,
                    assigned_date = d, due_date = Some d\<rparr>)
         (enumerate 0 src)"

definition copy_from_yesterday :: "world \<Rightarrow> date \<Rightarrow> py_error + world" where
  "copy_from_yesterday w0 selected_date =
     (if selected_date - 1 < date_min then Inl OverflowError
      else
        (let previous_date = selected_date - 1
         in case get_db_connection w0 of
              (False, w) \<Rightarrow> Inr w
            | (True, w) \<Rightarrow>
                (let kept = filter (\<lambda>a. assigned_date a \<noteq> selected_date) (assignments w);
                     src = filter (\<lambda>a. assigned_date a = previous_date) kept
                 in Inr (w\<lparr>assignments := kept @ copied_rows src (next_assignment_id w) selected_date,
                           next_assignment_id := next_assignment_id w + length src\<rparr>))))"

text \<open>
  A select box: the option the user chose, the first option when the choice is not
  among them, \<^verbatim>\<open>None\<close> when there is no option.
\<close>

definition st_selectbox :: "'a list \<Rightarrow> 'a \<Rightarrow> 'a option" where
  "st_selectbox options choice =
     (case options of
        [] \<Rightarrow> None
      | x # _ \<Rightarrow> if choice \<in> set options then Some choice else Some x)"

text \<open>
  Submitting the review form of \<^verbatim>\<open>parental_review_page\<close>. The page stops without a
  connection. The reviewers on offer are the people named Dad or Mom; the reviewer's id
  is the id of the first of them with the chosen name, and the review is added only when
  there is such an id and it is not 0 (Python's truth test). \<open>appr\<close> says that the
  radio button is on its first option, "Approve".
\<close>

definition parents_of :: "person list \<Rightarrow> person list" where
  "parents_of ps = filter (\<lambda>p. name p \<in> set [''Dad'', ''Mom'']) ps"

definition reviewer_id_of :: "person list \<Rightarrow> string option \<Rightarrow> nat option" where
  "reviewer_id_of parents reviewer =
     (case reviewer of
        None \<Rightarrow> None
      | Some r \<Rightarrow>
          (case filter (\<lambda>p. name p = r) parents of
             [] \<Rightarrow> None
           | p # _ \<Rightarrow> Some (p_id p)))"

definition submit_review ::
  "world \<Rightarrow> string \<Rightarrow> nat \<Rightarrow> bool \<Rightarrow> string \<Rightarrow> world" where
  "submit_review w0 choice cid appr nts =
     (case get_db_connection w0 of
        (False, w) \<Rightarrow> w
      | (True, w) \<Rightarrow>
          (case get_all_people w of
             (ps, w1) \<Rightarrow>
               (let parents = parents_of ps;
                    reviewer = st_selectbox (map name parents) choice
                in case reviewer_id_of parents reviewer of
                     None \<Rightarrow> w1
                   | Some rid \<Rightarrow>
                       if rid \<noteq> 0
                       then snd (add_parental_review w1 cid rid appr (Some nts))
                       else w1)))"

text \<open>
  Saving the form of \<^verbatim>\<open>recurring_setup_page\<close> for one chore: without "Enable Recurring"
  the type and the days are \<^verbatim>\<open>None\<close>; the days are stored, joined by commas, only for
  the type \<^verbatim>\<open>specific_days\<close>.
\<close>

definition save_recurring_settings ::
  "world \<Rightarrow> nat \<Rightarrow> bool \<Rightarrow> string \<Rightarrow> string list \<Rightarrow> bool \<times> world" where
  "save_recurring_settings w cid rec rtype days =
     (if rec
      then update_chore_recurring w cid True (Some rtype)
             (if rtype = ''specific_days'' then Some (str_join CHR '','' days) else None)
      else update_chore_recurring w cid False None None)"

section \<open>Reports\<close>

text \<open>
  SQL arithmetic on exact values: a division by zero gives NULL, and \<^verbatim>\<open>ROUND(x, 1)\<close>
  rounds to one decimal place, a half away from zero.
\<close>

definition sql_div :: "rat \<Rightarrow> rat \<Rightarrow> rat option" where
  "sql_div x y = (if y = 0 then None else Some (x / y))"

definition sql_round1 :: "rat \<Rightarrow> rat" where
  "sql_round1 x =
     (if 0 \<le> x then of_int \<lfloor>x * 10 + 1 / 2\<rfloor> / 10
      else - (of_int \<lfloor>- x * 10 + 1 / 2\<rfloor> / 10))"

record report_row =
  r_date :: date
  assigned :: nat
  completed :: nat
  completion_rate :: "rat option"
  estimated_minutes :: int
  r_actual_minutes :: int

text \<open>
  The rows that the query of \<^verbatim>\<open>get_individual_report\<close> groups: every assignment of the
  person in the range of dates, joined with its chore (\<^verbatim>\<open>JOIN\<close>: an assignment without
  a chore row is dropped) and with each of its completions (\<^verbatim>\<open>LEFT JOIN\<close>: NULL when
  it has none).
\<close>

definition left_join_completions :: "world \<Rightarrow> assignment \<Rightarrow> completion option list" where
  "left_join_completions w a =
     (case filter (\<lambda>m. assignment_id m = a_id a) (completions w) of
        [] \<Rightarrow> [None]
      | ms \<Rightarrow> map Some ms)"

definition report_join ::
  "world \<Rightarrow> nat \<Rightarrow> date \<Rightarrow> date \<Rightarrow> (assignment \<times> chore \<times> completion option) list" where
  "report_join w pid start_date end_date =
     concat (map (\<lambda>a.
        concat (map (\<lambda>c. map (\<lambda>m. (a, c, m)) (left_join_completions w a))
                    (filter (\<lambda>c. c_id c = chore_id a) (chores w))))
        (filter (\<lambda>a. person_id a = Some pid
                    \<and> start_date \<le> assigned_date a \<and> assigned_date a \<le> end_date)
                (assignments w)))"

text \<open>One row of the report: the aggregates of the group of a date.\<close>

definition report_row_of ::
  "(assignment \<times> chore \<times> completion option) list \<Rightarrow> date \<Rightarrow> report_row" where
  "report_row_of joined d =
     (let grp = filter (\<lambda>(a, c, m). assigned_date a = d) joined;
          n_assigned = length (remdups (map (\<lambda>(a, c, m). a_id a) grp));
          n_completed = length (remdups (map comp_id (List.map_filter (\<lambda>(a, c, m). m) grp)))
      in \<lparr>r_date = d,
          assigned = n_assigned,
          completed = n_completed,
          completion_rate =
            map_option sql_round1 (sql_div (of_nat n_completed * 100) (of_nat n_assigned)),
          estimated_minutes = sum_list (map (\<lambda>(a, c, m). estimated_time c) grp),
          r_actual_minutes =
            sum_list (map (\<lambda>(a, c, m). case m of None \<Rightarrow> 0 | Some x \<Rightarrow> actual_minutes x) grp)\<rparr>)"

text \<open>
  \<^verbatim>\<open>get_individual_report(person_id, start_date, end_date)\<close>: one row for each date
  that has a joined row, ordered by date; the empty list without a connection.
\<close>

definition get_individual_report ::
  "world \<Rightarrow> nat \<Rightarrow> date \<Rightarrow> date \<Rightarrow> report_row list \<times> world" where
  "get_individual_report w0 pid start_date end_date =
     (case get_db_connection w0 of
        (False, w) \<Rightarrow> ([], w)
      | (True, w) \<Rightarrow>
          (let joined = report_join w pid start_date end_date
           in (map (report_row_of joined)
                   (sort (remdups (map (\<lambda>(a, c, m). assigned_date a) joined))), w)))"

section \<open>Auxiliary notions and example states\<close>

text \<open>The pair of columns on which an assignment is to be unique.\<close>

definition slot :: "assignment \<Rightarrow> nat \<times> date" where
  "slot a = (chore_id a, assigned_date a)"

text \<open>
  Two states that agree on what \<^verbatim>\<open>generate_recurring_assignments\<close> reads and writes.
\<close>

definition same_store :: "world \<Rightarrow> world \<Rightarrow> bool" where
  "same_store w w' =
     (reachable w' = reachable w \<and> chores w' = chores w \<and> assignments w' = assignments w
      \<and> next_assignment_id w' = next_assignment_id w)"


text \<open>
  The example of the spec: 2024-01-01, a Monday, has the ordinal 738886; the catalog has
  the daily chore "Dishes" of 15 minutes; the family has a parent and a child.
\<close>

definition jan1 :: date where
  "jan1 = 738886"

definition ex_people :: "person list" where
  "ex_people = [\<lparr>p_id = 1, name = ''Dad'', role = Parent\<rparr>,
                \<lparr>p_id = 2, name = ''Child1'', role = Child\<rparr>]"

definition dishes :: chore where
  "dishes = \<lparr>c_id = 1, room = ''Kitchen'', task = ''Dishes'', estimated_time = 15,
             is_recurring = True, recurrence_type = Some ''daily'', recurrence_days = None,
             anchor = 0\<rparr>"

definition ex_world :: world where
  "ex_world = \<lparr>reachable = True, uq_completion = True, uq_review = True,
               people = ex_people, chores = [dishes], assignments = [],
               completions = [], parental_reviews = [],
               next_assignment_id = 1, next_completion_id = 1, next_review_id = 1,
               files = [], st_log = []\<rparr>"

text \<open>The example after "Dishes" was assigned to the child for 2024-01-01.\<close>

definition ex_assigned :: world where
  "ex_assigned = ex_world\<lparr>assignments :=
       [\<lparr>a_id = 1, chore_id = 1, person_id = Some 2, assigned_date = jan1,
         due_date = Some jan1\<rparr>],
     next_assignment_id := 2\<rparr>"

text \<open>The example after the child completed that assignment in 12 minutes.\<close>

definition ex_completed :: world where
  "ex_completed = ex_assigned\<lparr>completions :=
       [\<lparr>comp_id = 1, assignment_id = 1, actual_minutes = 12, comp_notes = Some ''done'',
         photo_filename = None\<rparr>],
     next_completion_id := 2\<rparr>"




text \<open>
  The example with assignments on three days: the completed one of 2024-01-01, two of the
  day before and one of the day after.
\<close>

definition ex_two_days :: world where
  "ex_two_days = ex_completed\<lparr>assignments :=
       [\<lparr>a_id = 1, chore_id = 1, person_id = Some 2, assigned_date = jan1,
         due_date = Some jan1\<rparr>,
        \<lparr>a_id = 2, chore_id = 1, person_id = Some 1, assigned_date = jan1 - 1,
         due_date = Some jan1\<rparr>,
        \<lparr>a_id = 3, chore_id = 7, person_id = None, assigned_date = jan1 - 1,
         due_date = None\<rparr>,
        \<lparr>a_id = 4, chore_id = 1, person_id = Some 2, assigned_date = jan1 + 1,
         due_date = Some (jan1 + 1)\<rparr>],
     next_assignment_id := 5\<rparr>"

text \<open>
  The example with three chores assigned to the child on 2024-01-01, one of them
  completed, and one chore assigned to the parent.
\<close>

definition ex_report :: world where
  "ex_report = ex_completed\<lparr>assignments :=
       [\<lparr>a_id = 1, chore_id = 1, person_id = Some 2, assigned_date = jan1,
         due_date = Some jan1\<rparr>,
        \<lparr>a_id = 2, chore_id = 2, person_id = Some 2, assigned_date = jan1,
         due_date = Some jan1\<rparr>,
        \<lparr>a_id = 3, chore_id = 3, person_id = Some 2, assigned_date = jan1,
         due_date = Some jan1\<rparr>,
        \<lparr>a_id = 4, chore_id = 1, person_id = Some 1, assigned_date = jan1,
         due_date = Some jan1\<rparr>],
     chores := [dishes, dishes\<lparr>c_id := 2, task := ''Sweep'', estimated_time := 10\<rparr>,
                dishes\<lparr>c_id := 3, task := ''Bins'', estimated_time := 5\<rparr>],
     next_assignment_id := 5\<rparr>"

section \<open>The rule evaluator on the examples of the spec\<close>

text \<open>
  The calendar functions on known dates, and the evaluator on the spec's examples: a
  weekly rule anchored to Monday is due on Mondays; a monthly rule anchored to day 31 is
  due on the 30th of April, a month of 30 days, and on the 31st of January; the rule of
  Tuesday and Thursday is due on a Thursday and not on a Wednesday.
\<close>

lemma ord2ymd_examples:
  "ord2ymd 1 = (1, 1, 1)"
  "ord2ymd jan1 = (2024, 1, 1)"
  "ord2ymd (jan1 + 59) = (2024, 2, 29)"
  "ord2ymd (jan1 + 120) = (2024, 4, 30)"
  "ord2ymd 3652059 = (9999, 12, 31)"
  by (simp_all add: ord2ymd_def jan1_def DAYS_BEFORE_MONTH_def DAYS_IN_MONTH_def Let_def)

lemma is_due_examples:
  "is_due (Weekly 0) jan1"
  "\<not> is_due (Weekly 0) (jan1 + 1)"
  "is_due (Weekly 0) (jan1 + 7)"
  "is_due (Monthly 31) (jan1 + 120)"
  "\<not> is_due (Monthly 31) (jan1 + 119)"
  "is_due (Monthly 31) (jan1 + 30)"
  "is_due Weekdays (jan1 + 4)"
  "\<not> is_due Weekdays (jan1 + 5)"
  "is_due (Specific_days {''T'', ''TH''}) (jan1 + 3)"
  "\<not> is_due (Specific_days {''T'', ''TH''}) (jan1 + 2)"
  by (simp_all add: ord2ymd_def jan1_def DAYS_BEFORE_MONTH_def DAYS_IN_MONTH_def Let_def
        weekday_def weekday_code_def day_options_def days_in_month_def is_leap_def)

section \<open>Uniqueness of the assignment of a chore and a date\<close>


lemma slot_row [simp]:
  "slot \<lparr>a_id = i, chore_id = c, person_id = p, assigned_date = d, due_date = q\<rparr> = (c, d)"
  by (simp add: slot_def)










section \<open>Idempotence of the generation\<close>

lemma sp_generate_fixed:
  "\<forall>c \<in> set cs. is_due (rule_of_chore c) d \<longrightarrow> filter (same_slot (c_id c) d) tbl \<noteq> [] \<Longrightarrow>
   sp_generate cs d (tbl, n) = (tbl, n)"
  by (induction cs) auto

lemma sp_generate_extends:
  "\<exists>ext. fst (sp_generate cs d (tbl, n)) = tbl @ ext"
proof (induction cs arbitrary: tbl n)
  case Nil
  then show ?case by simp
next
  case (Cons c cs)
  show ?case
  proof (cases "is_due (rule_of_chore c) d \<and> filter (same_slot (c_id c) d) tbl = []")
    case True
    let ?row = "\<lparr>a_id = n, chore_id = c_id c, person_id = default_assignee tbl (c_id c) d,
                 assigned_date = d, due_date = Some d\<rparr>"
    from Cons.IH[of "tbl @ [?row]" "Suc n"] obtain ext
      where "fst (sp_generate cs d (tbl @ [?row], Suc n)) = (tbl @ [?row]) @ ext" by blast
    with True show ?thesis by simp
  next
    case False
    with Cons.IH[of tbl n] show ?thesis by auto
  qed
qed

lemma sp_generate_keeps:
  assumes "filter (same_slot k d) tbl \<noteq> []"
  shows "filter (same_slot k d) (fst (sp_generate cs d (tbl, n))) \<noteq> []"
proof -
  from sp_generate_extends[of cs d tbl n] obtain ext
    where "fst (sp_generate cs d (tbl, n)) = tbl @ ext" by blast
  with assms show ?thesis by simp
qed

lemma sp_generate_covers:
  "c \<in> set cs \<Longrightarrow> is_due (rule_of_chore c) d \<Longrightarrow>
   filter (same_slot (c_id c) d) (fst (sp_generate cs d (tbl, n))) \<noteq> []"
proof (induction cs arbitrary: tbl n)
  case Nil
  then show ?case by simp
next
  case (Cons x cs)
  let ?row = "\<lparr>a_id = n, chore_id = c_id x, person_id = default_assignee tbl (c_id x) d,
               assigned_date = d, due_date = Some d\<rparr>"
  show ?case
  proof (cases "c = x")
    case True
    show ?thesis
    proof (cases "filter (same_slot (c_id c) d) tbl = []")
      case empty: True
      have "filter (same_slot (c_id c) d) (tbl @ [?row]) \<noteq> []"
        using True by (simp add: same_slot_def)
      from sp_generate_keeps[OF this, of cs "Suc n"] True empty Cons.prems(2)
      show ?thesis by simp
    next
      case False
      from sp_generate_keeps[OF this, of cs n] True False
      show ?thesis by simp
    qed
  next
    case False
    with Cons.prems have "c \<in> set cs" by simp
    from Cons.IH[OF this Cons.prems(2)] show ?thesis by auto
  qed
qed

lemma sp_generate_idem:
  "sp_generate cs d (sp_generate cs d st) = sp_generate cs d st"
proof -
  obtain tbl n where st: "st = (tbl, n)" by (cases st)
  obtain tbl' n' where r: "sp_generate cs d (tbl, n) = (tbl', n')"
    by (cases "sp_generate cs d (tbl, n)")
  have "\<forall>c \<in> set cs. is_due (rule_of_chore c) d \<longrightarrow> filter (same_slot (c_id c) d) tbl' \<noteq> []"
    using sp_generate_covers[of _ cs d tbl n] r by simp
  from sp_generate_fixed[OF this] st r show ?thesis by simp
qed

lemma generate_same_store:
  "same_store w w' \<Longrightarrow>
   same_store (snd (generate_recurring_assignments w d)) (snd (generate_recurring_assignments w' d))"
  by (auto simp: same_store_def generate_recurring_assignments_def get_db_connection_def
           split: prod.splits)

lemma generate_twice:
  "same_store (snd (generate_recurring_assignments w d))
     (snd (generate_recurring_assignments (snd (generate_recurring_assignments w d)) d))"
proof (cases "reachable w")
  case False
  then show ?thesis
    by (simp add: same_store_def generate_recurring_assignments_def get_db_connection_def)
next
  case True
  obtain tbl n where r: "sp_generate (chores w) d (assignments w, next_assignment_id w) = (tbl, n)"
    by (cases "sp_generate (chores w) d (assignments w, next_assignment_id w)")
  from sp_generate_idem[of "chores w" d "(assignments w, next_assignment_id w)"] r
  have "sp_generate (chores w) d (tbl, n) = (tbl, n)" by simp
  with True r show ?thesis
    by (simp add: same_store_def generate_recurring_assignments_def get_db_connection_def)
qed

lemma same_store_trans: "same_store a b \<Longrightarrow> same_store b c \<Longrightarrow> same_store a c"
  by (simp add: same_store_def)

lemma same_store_refl: "same_store a a"
  by (simp add: same_store_def)

lemma generate_times_same_store:
  "same_store (snd (generate_recurring_assignments w d)) w' \<Longrightarrow>
   same_store (snd (generate_recurring_assignments w d)) (generate_times n w' d)"
proof (induction n arbitrary: w')
  case 0
  then show ?case by simp
next
  case (Suc n)
  let ?g = "\<lambda>w. snd (generate_recurring_assignments w d)"
  have "same_store (?g (?g w)) (?g w')" using Suc.prems by (rule generate_same_store)
  with generate_twice[of w d] have "same_store (?g w) (?g w')" by (rule same_store_trans)
  from Suc.IH[OF this] show ?case by simp
qed

lemma generate_ex_world:
  "assignments (snd (generate_recurring_assignments ex_world jan1))
     = [\<lparr>a_id = 1, chore_id = 1, person_id = None, assigned_date = jan1,
         due_date = Some jan1\<rparr>]"
  by (simp add: generate_recurring_assignments_def get_db_connection_def ex_world_def
        dishes_def rule_of_chore_def same_slot_def default_assignee_def)

text \<open>
  Claim C1. For every date and every catalog (the table of chores of the state), calling
  \<^verbatim>\<open>generate_recurring_assignments\<close> for the date \<open>n \<ge> 1\<close> times leaves the same
  table of assignments as calling it once. The stored procedure behind the call is the
  one modelled from the spec.
\<close>

theorem generate_idempotent:
  assumes "0 < n"
  shows "assignments (generate_times n w d)
           = assignments (snd (generate_recurring_assignments w d))"
proof -
  from assms obtain m where n: "n = Suc m" by (cases n) auto
  have "same_store (snd (generate_recurring_assignments w d))
          (generate_times m (snd (generate_recurring_assignments w d)) d)"
    by (rule generate_times_same_store) (rule same_store_refl)
  with n show ?thesis by (simp add: same_store_def)
qed

theorem generate_idempotent_witness:
  "(0::nat) < 3
   \<and> assignments (generate_times 3 ex_world jan1)
       = [\<lparr>a_id = 1, chore_id = 1, person_id = None, assigned_date = jan1,
           due_date = Some jan1\<rparr>]"
  using generate_idempotent[of 3 ex_world jan1] generate_ex_world by simp

section \<open>Manual assignment\<close>













section \<open>Completions and reviews\<close>






lemma reviewer_id_of_Some:
  assumes "reviewer_id_of parents r = Some rid"
  shows "\<exists>p \<in> set parents. p_id p = rid"
proof -
  from assms obtain n p ps where f: "filter (\<lambda>p. name p = n) parents = p # ps"
    and rid: "rid = p_id p"
    by (auto simp: reviewer_id_of_def split: option.splits list.splits)
  have "p \<in> set (filter (\<lambda>p. name p = n) parents)" unfolding f by simp
  then have "p \<in> set parents" by simp
  with rid show ?thesis by blast
qed

lemma add_parental_review_ok:
  assumes "reachable w"
    and "uq_review w \<longrightarrow> cid \<notin> completion_id ` set (parental_reviews w)"
  shows "add_parental_review w cid reviewer appr nts =
           (True, w\<lparr>parental_reviews := parental_reviews w @
                   [\<lparr>pr_id = next_review_id w, completion_id = cid,
                     reviewed_by_person_id = reviewer, approved = appr,
                     review_notes = nts\<rparr>],
                   next_review_id := Suc (next_review_id w)\<rparr>)"
  using assms by (auto simp: add_parental_review_def get_db_connection_def)

lemma add_parental_review_rows:
  "parental_reviews (snd (add_parental_review w cid reviewer appr nts)) = parental_reviews w
   \<or> parental_reviews (snd (add_parental_review w cid reviewer appr nts))
       = parental_reviews w @
           [\<lparr>pr_id = next_review_id w, completion_id = cid,
             reviewed_by_person_id = reviewer, approved = appr, review_notes = nts\<rparr>]"
  by (simp add: add_parental_review_def get_db_connection_def)

lemma submit_review_rows:
  "parental_reviews (submit_review w choice cid appr nts) = parental_reviews w
   \<or> (\<exists>p \<in> set (people w). name p \<in> set [''Dad'', ''Mom'']
        \<and> parental_reviews (submit_review w choice cid appr nts)
            = parental_reviews w @
                [\<lparr>pr_id = next_review_id w, completion_id = cid,
                  reviewed_by_person_id = p_id p, approved = appr,
                  review_notes = Some nts\<rparr>])"
proof (cases "reachable w")
  case False
  then show ?thesis by (simp add: submit_review_def get_db_connection_def)
next
  case True
  let ?parents = "parents_of (sort_key name (people w))"
  let ?rid = "reviewer_id_of ?parents (st_selectbox (map name ?parents) choice)"
  show ?thesis
  proof (cases ?rid)
    case None
    with True show ?thesis
      by (simp add: submit_review_def get_db_connection_def get_all_people_def)
  next
    case (Some rid)
    from reviewer_id_of_Some[OF Some] obtain p where p: "p \<in> set ?parents" "p_id p = rid"
      by blast
    then have pp: "p \<in> set (people w)" "name p \<in> set [''Dad'', ''Mom'']"
      by (simp_all add: parents_of_def)
    have s: "submit_review w choice cid appr nts =
               (if rid \<noteq> 0 then snd (add_parental_review w cid rid appr (Some nts)) else w)"
      using True Some by (simp add: submit_review_def get_db_connection_def get_all_people_def)
    show ?thesis
    proof (cases "rid = 0")
      case True
      with s show ?thesis by simp
    next
      case False
      with s have e: "submit_review w choice cid appr nts
                        = snd (add_parental_review w cid rid appr (Some nts))" by simp
      from add_parental_review_rows[of w cid rid appr "Some nts"] show ?thesis
      proof
        assume "parental_reviews (snd (add_parental_review w cid rid appr (Some nts)))
                  = parental_reviews w"
        with e show ?thesis by simp
      next
        assume "parental_reviews (snd (add_parental_review w cid rid appr (Some nts)))
                  = parental_reviews w @
           [\<lparr>pr_id = next_review_id w, completion_id = cid,
             reviewed_by_person_id = rid, approved = appr, review_notes = Some nts\<rparr>]"
        with e p(2) have "parental_reviews (submit_review w choice cid appr nts)
            = parental_reviews w @
                [\<lparr>pr_id = next_review_id w, completion_id = cid,
                  reviewed_by_person_id = p_id p, approved = appr,
                  review_notes = Some nts\<rparr>]" by simp
        with pp show ?thesis by blast
      qed
    qed
  qed
qed

text \<open>
  Claim C4 fails on the code: in the example the person with the id 2 is the child, and
  \<^verbatim>\<open>add_parental_review\<close> with that reviewer succeeds and creates the review.
\<close>

theorem review_by_child_counterexample:
  "people ex_completed
     = [\<lparr>p_id = 1, name = ''Dad'', role = Parent\<rparr>,
        \<lparr>p_id = 2, name = ''Child1'', role = Child\<rparr>]
   \<and> add_parental_review ex_completed 1 2 True None
       = (True, ex_completed\<lparr>parental_reviews :=
            [\<lparr>pr_id = 1, completion_id = 1, reviewed_by_person_id = 2, approved = True,
              review_notes = None\<rparr>],
            next_review_id := 2\<rparr>)"
  by (simp add: add_parental_review_def get_db_connection_def
        ex_completed_def ex_assigned_def ex_world_def ex_people_def)

text \<open>
  Claim C4 as amended. \<^verbatim>\<open>add_parental_review\<close> checks no role: with a connection,
  and unless a declared uniqueness of the completion's review forbids it, it creates the
  review for any reviewer id and returns \<^verbatim>\<open>True\<close>. The restriction is the review
  page's: submitting its form either leaves the reviews as they were or adds one review
  whose reviewer is a person named Dad or Mom.
\<close>

theorem review_restricted_by_page_only:
  "(reachable w \<and> (uq_review w \<longrightarrow> cid \<notin> completion_id ` set (parental_reviews w)) \<longrightarrow>
      add_parental_review w cid reviewer appr nts =
        (True, w\<lparr>parental_reviews := parental_reviews w @
                   [\<lparr>pr_id = next_review_id w, completion_id = cid,
                     reviewed_by_person_id = reviewer, approved = appr,
                     review_notes = nts\<rparr>],
                 next_review_id := Suc (next_review_id w)\<rparr>))
   \<and> (parental_reviews (submit_review w choice cid appr rn) = parental_reviews w
      \<or> (\<exists>p \<in> set (people w). name p \<in> set [''Dad'', ''Mom'']
           \<and> parental_reviews (submit_review w choice cid appr rn)
               = parental_reviews w @
                   [\<lparr>pr_id = next_review_id w, completion_id = cid,
                     reviewed_by_person_id = p_id p, approved = appr,
                     review_notes = Some rn\<rparr>]))"
  using add_parental_review_ok[of w cid reviewer appr nts]
    submit_review_rows[of w choice cid appr rn]
  by blast

theorem review_restricted_by_page_only_witness:
  "reachable ex_completed
   \<and> 1 \<notin> completion_id ` set (parental_reviews ex_completed)
   \<and> parental_reviews (snd (add_parental_review ex_completed 1 2 True None))
       = [\<lparr>pr_id = 1, completion_id = 1, reviewed_by_person_id = 2, approved = True,
           review_notes = None\<rparr>]
   \<and> parental_reviews (submit_review ex_completed ''Child1'' 1 True ''ok'')
       = [\<lparr>pr_id = 1, completion_id = 1, reviewed_by_person_id = 1, approved = True,
           review_notes = Some ''ok''\<rparr>]"
proof -
  have r: "reachable ex_completed"
    by (simp add: ex_completed_def ex_assigned_def ex_world_def)
  have n: "parental_reviews ex_completed = []" "next_review_id ex_completed = 1"
    by (simp_all add: ex_completed_def ex_assigned_def ex_world_def)
  have s: "parental_reviews (submit_review ex_completed ''Child1'' 1 True ''ok'')
       = [\<lparr>pr_id = 1, completion_id = 1, reviewed_by_person_id = 1, approved = True,
           review_notes = Some ''ok''\<rparr>]"
    by (simp add: submit_review_def get_db_connection_def get_all_people_def parents_of_def
          st_selectbox_def reviewer_id_of_def add_parental_review_def
          ex_completed_def ex_assigned_def ex_world_def ex_people_def)
  from review_restricted_by_page_only[of ex_completed 1 2 True None "''Child1''" "''ok''"] r n s
  show ?thesis by simp
qed

section \<open>Failures\<close>










section \<open>Specific-days rules\<close>

lemma str_split_no_sep: "sep \<notin> set s \<Longrightarrow> str_split sep s = [s]"
  by (induction s) auto

lemma str_split_append:
  "sep \<notin> set x \<Longrightarrow> str_split sep (x @ sep # rest) = x # str_split sep rest"
  by (induction x) auto

lemma str_split_join:
  "ds \<noteq> [] \<Longrightarrow> \<forall>x \<in> set ds. sep \<notin> set x \<Longrightarrow> str_split sep (str_join sep ds) = ds"
proof (induction sep ds rule: str_join.induct)
  case (1 sep)
  then show ?case by simp
next
  case (2 sep x)
  then show ?case by (simp add: str_split_no_sep)
next
  case (3 sep x y ys)
  then show ?case by (simp add: str_split_append)
qed

lemma str_join_empty_iff:
  "\<forall>x \<in> set ds. x \<noteq> [] \<Longrightarrow> (str_join sep ds = []) = (ds = [])"
  by (induction sep ds rule: str_join.induct) auto

lemma day_options_ok:
  "x \<in> set day_options \<Longrightarrow> x \<noteq> [] \<and> CHR '','' \<notin> set x"
  by (auto simp: day_options_def)

lemma weekday_lt7: "weekday d < 7"
  by (simp add: weekday_def)

lemma weekday_code_option: "weekday_code d \<in> set day_options"
proof -
  have "weekday d < length day_options"
    using weekday_lt7[of d] by (simp add: day_options_def)
  then show ?thesis by (simp only: weekday_code_def nth_mem)
qed

lemma days_roundtrip:
  assumes "set ds \<subseteq> set day_options"
  shows "days_of_chore (c\<lparr>recurrence_days := Some (str_join CHR '','' ds)\<rparr>) = ds"
proof (cases "ds = []")
  case True
  then show ?thesis by (simp add: days_of_chore_def)
next
  case False
  from assms have ok: "\<forall>x \<in> set ds. x \<noteq> [] \<and> CHR '','' \<notin> set x"
    using day_options_ok by blast
  then have "str_join CHR '','' ds \<noteq> []"
    using False str_join_empty_iff[of ds "CHR '',''"] by blast
  moreover have "str_split CHR '','' (str_join CHR '','' ds) = ds"
    using False ok by (simp add: str_split_join)
  ultimately show ?thesis by (simp add: days_of_chore_def)
qed


lemma save_specific_days:
  assumes "reachable w"
  shows "save_recurring_settings w cid True ''specific_days'' ds =
           (True, w\<lparr>chores :=
              map (\<lambda>c. if c_id c = cid
                        then c\<lparr>is_recurring := True, recurrence_type := Some ''specific_days'',
                               recurrence_days := Some (str_join CHR '','' ds)\<rparr>
                        else c)
                  (chores w)\<rparr>)"
  using assms
  by (simp add: save_recurring_settings_def update_chore_recurring_def get_db_connection_def)

lemma rule_of_saved_chore:
  assumes "set ds \<subseteq> set day_options"
  shows "rule_of_chore (c\<lparr>is_recurring := True, recurrence_type := Some ''specific_days'',
                           recurrence_days := Some (str_join CHR '','' ds)\<rparr>)
           = Specific_days (set ds)"
proof -
  have "days_of_chore (c\<lparr>is_recurring := True, recurrence_type := Some ''specific_days'',
                           recurrence_days := Some (str_join CHR '','' ds)\<rparr>) = ds"
    using days_roundtrip[OF assms, of "c\<lparr>is_recurring := True,
       recurrence_type := Some ''specific_days''\<rparr>"] by simp
  then show ?thesis by (simp add: rule_of_chore_def)
qed

text \<open>
  Claim C9. A specific-days rule is due on a date exactly when the date's weekday code is
  in the rule's set, for every date; the rule with the empty set is never due. The code
  of a date is always one of the seven codes of the form. Saving the form with the type
  \<^verbatim>\<open>specific_days\<close> and any selection of the form's codes, the empty one included,
  succeeds, and the saved chore's rule is the specific-days rule of exactly the selected
  codes. The evaluator is the one modelled from the spec.
\<close>

theorem specific_days_due_iff_member:
  "is_due (Specific_days S) d = (weekday_code d \<in> S)
   \<and> \<not> is_due (Specific_days {}) d
   \<and> weekday_code d \<in> set day_options
   \<and> (reachable w \<and> set ds \<subseteq> set day_options \<longrightarrow>
        fst (save_recurring_settings w cid True ''specific_days'' ds) = True
        \<and> (\<forall>c \<in> set (chores (snd (save_recurring_settings w cid True ''specific_days'' ds))).
              c_id c = cid \<longrightarrow>
                rule_of_chore c = Specific_days (set ds)
                \<and> is_due (rule_of_chore c) d = (weekday_code d \<in> set ds)))"
proof (intro conjI impI)
  show "is_due (Specific_days S) d = (weekday_code d \<in> S)" by simp
  show "\<not> is_due (Specific_days {}) d" by simp
  show "weekday_code d \<in> set day_options" by (rule weekday_code_option)
next
  assume a: "reachable w \<and> set ds \<subseteq> set day_options"
  then show "fst (save_recurring_settings w cid True ''specific_days'' ds) = True"
    by (simp add: save_specific_days)
next
  assume a: "reachable w \<and> set ds \<subseteq> set day_options"
  show "\<forall>c \<in> set (chores (snd (save_recurring_settings w cid True ''specific_days'' ds))).
              c_id c = cid \<longrightarrow>
                rule_of_chore c = Specific_days (set ds)
                \<and> is_due (rule_of_chore c) d = (weekday_code d \<in> set ds)"
  proof (intro ballI impI)
    fix c
    assume m: "c \<in> set (chores (snd (save_recurring_settings w cid True ''specific_days'' ds)))"
      and i: "c_id c = cid"
    let ?f = "\<lambda>c. if c_id c = cid
                        then c\<lparr>is_recurring := True, recurrence_type := Some ''specific_days'',
                               recurrence_days := Some (str_join CHR '','' ds)\<rparr>
                        else c"
    from m a have "c \<in> ?f ` set (chores w)"
      by (simp add: save_specific_days)
    then obtain c0 where e: "c = ?f c0" by (rule imageE)
    have "c_id c0 = cid"
    proof (rule ccontr)
      assume "c_id c0 \<noteq> cid"
      with e have "c = c0" by simp
      with i \<open>c_id c0 \<noteq> cid\<close> show False by simp
    qed
    with e have "c = c0\<lparr>is_recurring := True, recurrence_type := Some ''specific_days'',
                               recurrence_days := Some (str_join CHR '','' ds)\<rparr>" by simp
    with a have r: "rule_of_chore c = Specific_days (set ds)"
      by (simp only: rule_of_saved_chore)
    then show "rule_of_chore c = Specific_days (set ds)
                \<and> is_due (rule_of_chore c) d = (weekday_code d \<in> set ds)" by simp
  qed
qed

theorem specific_days_due_iff_member_witness:
  "reachable ex_world \<and> set [''T'', ''TH''] \<subseteq> set day_options
   \<and> fst (save_recurring_settings ex_world 1 True ''specific_days'' [''T'', ''TH'']) = True
   \<and> map recurrence_days
        (chores (snd (save_recurring_settings ex_world 1 True ''specific_days'' [''T'', ''TH''])))
       = [Some ''T,TH'']
   \<and> map (\<lambda>c. is_due (rule_of_chore c) (jan1 + 1))
        (chores (snd (save_recurring_settings ex_world 1 True ''specific_days'' [''T'', ''TH''])))
       = [True]
   \<and> weekday_code (jan1 + 1) = ''T''"
proof -
  have r: "reachable ex_world" by (simp add: ex_world_def)
  have s: "set [''T'', ''TH''] \<subseteq> set day_options" by (simp add: day_options_def)
  have c: "chores (snd (save_recurring_settings ex_world 1 True ''specific_days'' [''T'', ''TH'']))
           = [dishes\<lparr>is_recurring := True, recurrence_type := Some ''specific_days'',
                     recurrence_days := Some ''T,TH''\<rparr>]"
    by (simp add: save_recurring_settings_def update_chore_recurring_def get_db_connection_def
          ex_world_def dishes_def)
  have k: "weekday_code (jan1 + 1) = ''T''"
    by (simp add: weekday_code_def weekday_def day_options_def jan1_def)
  from specific_days_due_iff_member[of "set [''T'', ''TH'']" "jan1 + 1" ex_world "[''T'', ''TH'']" 1]
    r s c k
  show ?thesis by (simp add: dishes_def)
qed

section \<open>Copy from yesterday\<close>

lemma copied_rows_dates:
  "\<forall>a \<in> set (copied_rows src n d). assigned_date a = d"
  by (auto simp: copied_rows_def)

lemma copied_rows_filter:
  "filter (\<lambda>a. assigned_date a \<noteq> d) (copied_rows src n d) = []"
  "filter (\<lambda>a. assigned_date a = d) (copied_rows src n d) = copied_rows src n d"
  using copied_rows_dates[of src n d] by (simp_all add: filter_empty_conv filter_id_conv)

lemma copied_rows_columns:
  "map (\<lambda>a. (chore_id a, person_id a, assigned_date a, due_date a)) (copied_rows src n d)
     = map (\<lambda>a. (chore_id a, person_id a, d, Some d)) src"
proof -
  have "map (\<lambda>a. (chore_id a, person_id a, assigned_date a, due_date a)) (copied_rows src n d)
          = map ((\<lambda>a. (chore_id a, person_id a, d, Some d)) \<circ> snd) (enumerate 0 src)"
    by (simp add: copied_rows_def case_prod_beta comp_def)
  also have "\<dots> = map (\<lambda>a. (chore_id a, person_id a, d, Some d)) (map snd (enumerate 0 src))"
    by (simp only: map_map)
  also have "\<dots> = map (\<lambda>a. (chore_id a, person_id a, d, Some d)) src"
    by (simp only: map_snd_enumerate)
  finally show ?thesis .
qed

lemma copied_rows_ids:
  "map a_id (copied_rows src n d) = map (\<lambda>i. n + i) [0..<length src]"
proof -
  have "map a_id (copied_rows src n d) = map ((\<lambda>i. n + i) \<circ> fst) (enumerate 0 src)"
    by (simp add: copied_rows_def case_prod_beta comp_def)
  also have "\<dots> = map (\<lambda>i. n + i) (map fst (enumerate 0 src))"
    by (simp only: map_map)
  also have "\<dots> = map (\<lambda>i. n + i) [0..<length src]"
    by (simp only: map_fst_enumerate add_0)
  finally show ?thesis .
qed

lemma copy_from_yesterday_result:
  assumes "reachable w" and "date_min < d"
  shows "copy_from_yesterday w d =
           Inr (w\<lparr>assignments :=
                    filter (\<lambda>a. assigned_date a \<noteq> d) (assignments w)
                    @ copied_rows (filter (\<lambda>a. assigned_date a = d - 1) (assignments w))
                        (next_assignment_id w) d,
                  next_assignment_id := next_assignment_id w
                    + length (filter (\<lambda>a. assigned_date a = d - 1) (assignments w))\<rparr>)"
proof -
  have "filter (\<lambda>a. assigned_date a = d - 1) (filter (\<lambda>a. assigned_date a \<noteq> d) (assignments w))
          = filter (\<lambda>a. assigned_date a = d - 1) (assignments w)"
    by (induction "assignments w") (auto intro: filter_cong)
  with assms show ?thesis
    by (simp add: copy_from_yesterday_def get_db_connection_def Let_def)
qed


text \<open>
  Claim C10. With a connection and a selected date that has a previous day, "Copy from
  Yesterday" succeeds; the assignments of all other dates are as they were; the
  assignments of the selected date are exactly one copy of each assignment of the
  previous date, with the chore and the person of the original and with the assigned
  date and the due date set to the selected date; they are inserted rows, numbered from
  the table's counter, the former rows of the selected date being deleted; the result
  does not depend on the completions, which the model (it has no foreign key) leaves as
  they were.
\<close>

theorem copy_from_yesterday_replaces:
  assumes "reachable w" and "date_min < d"
  shows "\<not> isl (copy_from_yesterday w d)
    \<and> filter (\<lambda>a. assigned_date a \<noteq> d) (assignments (projr (copy_from_yesterday w d)))
        = filter (\<lambda>a. assigned_date a \<noteq> d) (assignments w)
    \<and> map (\<lambda>a. (chore_id a, person_id a, assigned_date a, due_date a))
          (filter (\<lambda>a. assigned_date a = d) (assignments (projr (copy_from_yesterday w d))))
        = map (\<lambda>a. (chore_id a, person_id a, d, Some d))
            (filter (\<lambda>a. assigned_date a = d - 1) (assignments w))
    \<and> map a_id (filter (\<lambda>a. assigned_date a = d) (assignments (projr (copy_from_yesterday w d))))
        = map (\<lambda>i. next_assignment_id w + i)
            [0..<length (filter (\<lambda>a. assigned_date a = d - 1) (assignments w))]
    \<and> assignments (projr (copy_from_yesterday (w\<lparr>completions := ms\<rparr>) d))
        = assignments (projr (copy_from_yesterday w d))
    \<and> completions (projr (copy_from_yesterday w d)) = completions w"
proof -
  note r = copy_from_yesterday_result[OF assms]
  have r': "copy_from_yesterday (w\<lparr>completions := ms\<rparr>) d =
           Inr (w\<lparr>completions := ms, assignments :=
                    filter (\<lambda>a. assigned_date a \<noteq> d) (assignments w)
                    @ copied_rows (filter (\<lambda>a. assigned_date a = d - 1) (assignments w))
                        (next_assignment_id w) d,
                  next_assignment_id := next_assignment_id w
                    + length (filter (\<lambda>a. assigned_date a = d - 1) (assignments w))\<rparr>)"
    using copy_from_yesterday_result[of "w\<lparr>completions := ms\<rparr>" d] assms by simp
  have f1: "\<not> isl (copy_from_yesterday w d)" by (simp add: r)
  have f2: "filter (\<lambda>a. assigned_date a \<noteq> d) (assignments (projr (copy_from_yesterday w d)))
        = filter (\<lambda>a. assigned_date a \<noteq> d) (assignments w)"
    by (simp add: r copied_rows_filter)
  have k: "filter (\<lambda>a. assigned_date a = d) (assignments (projr (copy_from_yesterday w d)))
        = copied_rows (filter (\<lambda>a. assigned_date a = d - 1) (assignments w))
                        (next_assignment_id w) d"
    by (simp add: r copied_rows_filter)
  have f3: "map (\<lambda>a. (chore_id a, person_id a, assigned_date a, due_date a))
          (filter (\<lambda>a. assigned_date a = d) (assignments (projr (copy_from_yesterday w d))))
        = map (\<lambda>a. (chore_id a, person_id a, d, Some d))
            (filter (\<lambda>a. assigned_date a = d - 1) (assignments w))"
    by (simp only: k copied_rows_columns)
  have f4: "map a_id (filter (\<lambda>a. assigned_date a = d) (assignments (projr (copy_from_yesterday w d))))
        = map (\<lambda>i. next_assignment_id w + i)
            [0..<length (filter (\<lambda>a. assigned_date a = d - 1) (assignments w))]"
    by (simp only: k copied_rows_ids)
  have f5: "assignments (projr (copy_from_yesterday (w\<lparr>completions := ms\<rparr>) d))
        = assignments (projr (copy_from_yesterday w d))"
    by (simp add: r r')
  have f6: "completions (projr (copy_from_yesterday w d)) = completions w"
    by (simp add: r)
  show ?thesis
    by (rule conjI[OF f1 conjI[OF f2 conjI[OF f3 conjI[OF f4 conjI[OF f5 f6]]]]])
qed

theorem copy_from_yesterday_replaces_witness:
  "reachable ex_two_days \<and> date_min < jan1
   \<and> map assignment_id (completions ex_two_days) = [1]
   \<and> assignments (projr (copy_from_yesterday ex_two_days jan1))
       = [\<lparr>a_id = 2, chore_id = 1, person_id = Some 1, assigned_date = jan1 - 1,
           due_date = Some jan1\<rparr>,
          \<lparr>a_id = 3, chore_id = 7, person_id = None, assigned_date = jan1 - 1,
           due_date = None\<rparr>,
          \<lparr>a_id = 4, chore_id = 1, person_id = Some 2, assigned_date = jan1 + 1,
           due_date = Some (jan1 + 1)\<rparr>,
          \<lparr>a_id = 5, chore_id = 1, person_id = Some 1, assigned_date = jan1,
           due_date = Some jan1\<rparr>,
          \<lparr>a_id = 6, chore_id = 7, person_id = None, assigned_date = jan1,
           due_date = Some jan1\<rparr>]
   \<and> map a_id (filter (\<lambda>a. assigned_date a = jan1)
         (assignments (projr (copy_from_yesterday ex_two_days jan1)))) = [5, 6]"
proof -
  have r: "reachable ex_two_days"
    by (simp add: ex_two_days_def ex_completed_def ex_assigned_def ex_world_def)
  have d: "date_min < jan1" by (simp add: date_min_def jan1_def)
  have c: "map assignment_id (completions ex_two_days) = [1]"
    by (simp add: ex_two_days_def ex_completed_def)
  have e: "assignments (projr (copy_from_yesterday ex_two_days jan1))
       = [\<lparr>a_id = 2, chore_id = 1, person_id = Some 1, assigned_date = jan1 - 1,
           due_date = Some jan1\<rparr>,
          \<lparr>a_id = 3, chore_id = 7, person_id = None, assigned_date = jan1 - 1,
           due_date = None\<rparr>,
          \<lparr>a_id = 4, chore_id = 1, person_id = Some 2, assigned_date = jan1 + 1,
           due_date = Some (jan1 + 1)\<rparr>,
          \<lparr>a_id = 5, chore_id = 1, person_id = Some 1, assigned_date = jan1,
           due_date = Some jan1\<rparr>,
          \<lparr>a_id = 6, chore_id = 7, person_id = None, assigned_date = jan1,
           due_date = Some jan1\<rparr>]"
    by (simp add: copy_from_yesterday_def get_db_connection_def Let_def copied_rows_def
          date_min_def jan1_def ex_two_days_def ex_completed_def ex_assigned_def ex_world_def)
  have n: "next_assignment_id ex_two_days = 5"
    and l: "length (filter (\<lambda>a. assigned_date a = jan1 - 1) (assignments ex_two_days)) = 2"
    by (simp_all add: ex_two_days_def jan1_def)
  from copy_from_yesterday_replaces[OF r d, where ms = "[]"]
  have "map a_id (filter (\<lambda>a. assigned_date a = jan1)
         (assignments (projr (copy_from_yesterday ex_two_days jan1))))
        = map (\<lambda>i. next_assignment_id ex_two_days + i)
            [0..<length (filter (\<lambda>a. assigned_date a = jan1 - 1) (assignments ex_two_days))]"
    by blast
  also have "\<dots> = [5, 6]" unfolding n l by (simp add: upt_rec)
  finally show ?thesis using r d c e by simp
qed

section \<open>The individual report\<close>

lemma sql_round1_near:
  assumes "0 \<le> x"
  shows "\<exists>k::int. sql_round1 x = of_int k / 10" and "\<bar>sql_round1 x - x\<bar> \<le> 1 / 20"
proof -
  let ?k = "\<lfloor>x * 10 + 1 / 2\<rfloor>"
  have r: "sql_round1 x = of_int ?k / 10" using assms by (simp add: sql_round1_def)
  then show "\<exists>k::int. sql_round1 x = of_int k / 10" by blast
  have "of_int ?k \<le> x * 10 + 1 / 2" by linarith
  moreover have "x * 10 + 1 / 2 < of_int ?k + 1" by linarith
  ultimately have "of_int ?k / 10 - x \<le> 1 / 20" and "- (1 / 20) \<le> of_int ?k / 10 - x"
    by (simp_all add: field_simps)
  then have "\<bar>of_int ?k / 10 - x\<bar> \<le> 1 / 20" by linarith
  then show "\<bar>sql_round1 x - x\<bar> \<le> 1 / 20" by (simp only: r)
qed

lemma report_row_of_group:
  assumes "d \<in> (\<lambda>(a, c, m). assigned_date a) ` set joined"
  shows "0 < assigned (report_row_of joined d)"
proof -
  from assms obtain a c m where m: "(a, c, m) \<in> set joined" and d: "assigned_date a = d"
    by auto
  then have "(a, c, m) \<in> set (filter (\<lambda>(a, c, m). assigned_date a = d) joined)" by simp
  then have "a_id a \<in> set (remdups (map (\<lambda>(a, c, m). a_id a)
                 (filter (\<lambda>(a, c, m). assigned_date a = d) joined)))"
    by (force simp del: set_filter)
  then have "remdups (map (\<lambda>(a, c, m). a_id a)
                 (filter (\<lambda>(a, c, m). assigned_date a = d) joined)) \<noteq> []"
    by (metis empty_iff list.set(1))
  then show ?thesis by (simp add: report_row_of_def Let_def)
qed

lemma report_row_of_rate:
  "completion_rate (report_row_of joined d) =
     map_option sql_round1
       (sql_div (of_nat (completed (report_row_of joined d)) * 100)
                (of_nat (assigned (report_row_of joined d))))"
  by (simp add: report_row_of_def Let_def)

lemma report_rows:
  assumes "r \<in> set (fst (get_individual_report w pid s e))"
  shows "\<exists>joined d. r = report_row_of joined d
           \<and> d \<in> (\<lambda>(a, c, m). assigned_date a) ` set joined"
proof (cases "reachable w")
  case False
  with assms show ?thesis by (simp add: get_individual_report_def get_db_connection_def)
next
  case True
  let ?j = "report_join w pid s e"
  from assms True have "r \<in> report_row_of ?j ` set (sort (remdups (map (\<lambda>(a, c, m). assigned_date a) ?j)))"
    by (simp add: get_individual_report_def get_db_connection_def Let_def)
  then obtain d where "r = report_row_of ?j d"
    and "d \<in> set (sort (remdups (map (\<lambda>(a, c, m). assigned_date a) ?j)))"
    by (rule imageE)
  then have "r = report_row_of ?j d \<and> d \<in> (\<lambda>(a, c, m). assigned_date a) ` set ?j"
    by simp
  then show ?thesis by blast
qed

text \<open>
  Claim C7. Every row of \<^verbatim>\<open>get_individual_report\<close> has an assigned count of at least 1,
  so the division of the query never divides by zero and the rate is never NULL; the rate
  is 0 if the count is 0 (which does not happen) and otherwise
  \<^verbatim>\<open>ROUND(100 * completed / assigned, 1)\<close>: a number with one decimal place that
  differs from the exact rate by at most 0.05.
\<close>

theorem individual_report_rate:
  assumes "r \<in> set (fst (get_individual_report w pid s e))"
  shows "0 < assigned r
     \<and> completion_rate r =
         (if assigned r = 0 then Some 0
          else Some (sql_round1 (100 * of_nat (completed r) / of_nat (assigned r))))
     \<and> (\<exists>q k. completion_rate r = Some q \<and> q = of_int k / 10
           \<and> \<bar>q - 100 * of_nat (completed r) / of_nat (assigned r)\<bar> \<le> 1 / 20)"
proof -
  from report_rows[OF assms] obtain joined d where r: "r = report_row_of joined d"
    and d: "d \<in> (\<lambda>(a, c, m). assigned_date a) ` set joined" by blast
  let ?x = "100 * of_nat (completed r) / of_nat (assigned r) :: rat"
  have pos: "0 < assigned r" unfolding r using d by (rule report_row_of_group)
  have rate: "completion_rate r = Some (sql_round1 ?x)"
    using pos report_row_of_rate[of joined d] by (simp add: r sql_div_def mult.commute)
  have "0 \<le> ?x" by simp
  from sql_round1_near[OF this] obtain k :: int where k: "sql_round1 ?x = of_int k / 10"
    and n: "\<bar>sql_round1 ?x - ?x\<bar> \<le> 1 / 20" by blast
  from rate k n have "\<exists>q k. completion_rate r = Some q \<and> q = of_int k / 10
           \<and> \<bar>q - ?x\<bar> \<le> 1 / 20" by blast
  with pos rate show ?thesis by simp
qed

text \<open>A half rounds away from zero: 6.25 becomes 6.3.\<close>

lemma sql_round1_half: "sql_round1 (25 / 4) = 63 / 10"
proof -
  have "\<lfloor>25 / 4 * 10 + 1 / 2 :: rat\<rfloor> = 63"
    by (rule floor_unique) simp_all
  then show ?thesis by (simp add: sql_round1_def)
qed

lemma sql_round1_third: "sql_round1 (100 / 3) = 333 / 10"
proof -
  have "\<lfloor>100 / 3 * 10 + 1 / 2 :: rat\<rfloor> = 333"
    by (rule floor_unique) simp_all
  then show ?thesis by (simp add: sql_round1_def)
qed

lemma ex_report_rows:
  "fst (get_individual_report ex_report 2 jan1 (jan1 + 6))
     = [\<lparr>r_date = jan1, assigned = 3, completed = 1, completion_rate = Some (333 / 10),
         estimated_minutes = 30, r_actual_minutes = 12\<rparr>]"
  by (simp add: get_individual_report_def get_db_connection_def Let_def report_join_def
        left_join_completions_def report_row_of_def sql_div_def sql_round1_third
        List.map_filter_def
        ex_report_def ex_completed_def ex_assigned_def ex_world_def dishes_def jan1_def)

theorem individual_report_rate_witness:
  "\<lparr>r_date = jan1, assigned = 3, completed = 1, completion_rate = Some (333 / 10),
     estimated_minutes = 30, r_actual_minutes = 12\<rparr>
     \<in> set (fst (get_individual_report ex_report 2 jan1 (jan1 + 6)))
   \<and> sql_round1 (100 * of_nat 1 / of_nat 3) = 333 / 10"
proof -
  let ?r = "\<lparr>r_date = jan1, assigned = 3, completed = 1, completion_rate = Some (333 / 10),
     estimated_minutes = 30, r_actual_minutes = 12\<rparr>"
  have m: "?r \<in> set (fst (get_individual_report ex_report 2 jan1 (jan1 + 6)))"
    by (simp add: ex_report_rows)
  from individual_report_rate[OF m] have "completion_rate ?r
      = Some (sql_round1 (100 * of_nat (completed ?r) / of_nat (assigned ?r)))"
    by simp
  then have "sql_round1 (100 * of_nat 1 / of_nat 3) = 333 / 10" by simp
  with m show ?thesis by simp
qed

end
